theory Spec2Isabelle
  imports Complex_Main
begin

section \<open>Cubes and their wire format\<close>

text \<open>
  A cube is an ordered list of literals (\<open>std::vector<int>\<close>), read with \<open>getPath\<close>.
  The class \<open>Cube\<close> and the free functions \<open>serializeCubes\<close> and
  \<open>unserializeCubes\<close> are used by \<open>cube_worker.cpp\<close> but declared elsewhere.
\<close>

datatype Cube = Cube (getPath: "int list")

text \<open>
  Modelled from the spec: \<open>Cube::includes\<close> (section 4.2), "returns true iff every
  literal of other appears in self".
\<close>

definition cube_includes :: "Cube \<Rightarrow> Cube \<Rightarrow> bool" where
  "cube_includes self other = list_all (\<lambda>lit. lit \<in> set (getPath self)) (getPath other)"

text \<open>
  Modelled from the spec: \<open>serializeCubes\<close> (section 4.2), "a flat integer stream where
  each cube is terminated by a sentinel 0". The loop appends every cube's path and then
  the sentinel to the output vector.
\<close>

fun serialize_loop :: "int list \<Rightarrow> Cube list \<Rightarrow> int list" where
  "serialize_loop serialized_cubes [] = serialized_cubes"
| "serialize_loop serialized_cubes (cube # cubes) =
     serialize_loop (serialized_cubes @ getPath cube @ [0]) cubes"

definition serializeCubes :: "Cube list \<Rightarrow> int list" where
  "serializeCubes cubes = serialize_loop [] cubes"

text \<open>
  Modelled from the spec: \<open>unserializeCubes\<close>, the reader of that stream. It walks the
  stream once with an accumulator: a sentinel closes the accumulated literals into a
  cube, any other value is appended to the accumulator. Literals after the last sentinel
  belong to no cube.
\<close>

fun unserialize_loop :: "Cube list \<Rightarrow> int list \<Rightarrow> int list \<Rightarrow> Cube list" where
  "unserialize_loop cubes accumulator [] = cubes"
| "unserialize_loop cubes accumulator (lit # serialized_cubes) =
     (if lit = 0 then unserialize_loop (cubes @ [Cube accumulator]) [] serialized_cubes
      else unserialize_loop cubes (accumulator @ [lit]) serialized_cubes)"

definition unserializeCubes :: "int list \<Rightarrow> Cube list" where
  "unserializeCubes serialized_cubes = unserialize_loop [] [] serialized_cubes"

definition nonzero_literals :: "Cube \<Rightarrow> bool" where
  "nonzero_literals cube = list_all (\<lambda>lit. lit \<noteq> 0) (getPath cube)"

section \<open>The job life cycle (job.cpp)\<close>

datatype JobState = INACTIVE | ACTIVE | SUSPENDED | STANDBY | PAST

text \<open>
  What a call can end in instead of a value: a failed \<open>assert\<close>, an operation C++
  leaves undefined (signed overflow, an out-of-range shift or float-to-int conversion),
  the \<open>std::out_of_range\<close> of \<open>vector::at\<close>, or the exception of a JSON read
  that finds no value of the type asked for.
\<close>

datatype fault = AssertionFailed | UndefinedBehaviour | OutOfRange | JsonException

text \<open>
  \<open>int\<close> is the 32-bit signed integer of the platform; the three functions below
  write out where C++ gives an \<open>int\<close> expression no value.
\<close>

definition int_check :: "int \<Rightarrow> fault + int" where
  "int_check v = (if - (2 ^ 31) \<le> v \<and> v < 2 ^ 31 then Inr v else Inl UndefinedBehaviour)"

definition int_of_float :: "real \<Rightarrow> fault + int" where
  "int_of_float x = int_check (if 0 \<le> x then \<lfloor>x\<rfloor> else \<lceil>x\<rceil>)"

definition shift_left_one :: "int \<Rightarrow> fault + int" where
  "shift_left_one n =
     (if 0 \<le> n \<and> n < 31 then Inr (2 ^ nat n)
      else if n = 31 then Inr (- (2 ^ 31))
      else Inl UndefinedBehaviour)"

text \<open>
  A \<open>float\<close> or \<open>double\<close> value is the real number it stands for. An arithmetic
  operation or a conversion gives the exact real result rounded to the format: to the
  nearest value with \<open>prec\<close> significant bits and an exponent of the last bit not
  below \<open>emin\<close>, a tie to the value with an even last bit (IEEE 754 binary32 and
  binary64 in the default rounding mode). Infinities and NaN are left out: a result
  beyond the largest finite value stays the rounded real, which is beyond every \<open>int\<close>.
\<close>

definition round_ties_even :: "real \<Rightarrow> int" where
  "round_ties_even y =
     (let n = \<lfloor>y\<rfloor> in
      if y - of_int n < 1 / 2 then n
      else if 1 / 2 < y - of_int n then n + 1
      else if even n then n else n + 1)"

definition round_binary :: "nat \<Rightarrow> int \<Rightarrow> real \<Rightarrow> real" where
  "round_binary prec emin x =
     (if x = 0 then 0
      else
        (let e = max emin (\<lfloor>log 2 \<bar>x\<bar>\<rfloor> - int prec + 1)
         in of_int (round_ties_even (x / 2 powi e)) * 2 powi e))"

definition float32 :: "real \<Rightarrow> real" where
  "float32 x = round_binary 24 (- 149) x"

definition float64 :: "real \<Rightarrow> real" where
  "float64 x = round_binary 53 (- 1074) x"

text \<open>
  The parts of \<open>JobTree\<close> and \<open>JobDescription\<close> (both declared outside these
  sources) that \<open>job.cpp\<close> and \<open>base_cube_sat_job.cpp\<close> read and write.
\<close>

record JobTree =
  comm_size :: int
  is_root :: bool
  left_child :: "int option"
  right_child :: "int option"

text \<open>
  Modelled from the spec: \<open>JobTree::unsetLeftChild\<close> and \<open>unsetRightChild\<close>
  (section 4.8), "child slots are unset on interrupt/terminate".
\<close>

definition unsetLeftChild :: "JobTree \<Rightarrow> JobTree" where
  "unsetLeftChild t = t\<lparr>left_child := None\<rparr>"

definition unsetRightChild :: "JobTree \<Rightarrow> JobTree" where
  "unsetRightChild t = t\<lparr>right_child := None\<rparr>"

record JobDescription =
  getId :: int
  getPriority :: real
  isIncremental :: bool
  getMaxDemand :: int
  getNumFormulaLiterals :: nat
  getPayloads :: "int list list"
  getRevision :: int

record Job =
  sizeLimitPerProcess :: int
  state :: JobState
  job_tree :: JobTree
  growth_period :: real
  continuous_growth :: bool
  max_demand :: int
  threads_per_job :: int
  time_of_activation :: real
  time_of_last_limit_check :: real
  volume :: int
  priority :: real
  description :: JobDescription
  has_description :: bool

text \<open>
  Modelled from the spec: \<open>Job::assertState\<close> (declared in the header), section 7:
  an illegal state transition is "fatal in the implementation, surfaced through an
  assertion with the source/target state".
\<close>

definition assertState :: "'a Job_scheme \<Rightarrow> JobState \<Rightarrow> bool" where
  "assertState j s = (state j = s)"

text \<open>
  \<open>_threads_per_job * _description.getNumFormulaLiterals()\<close>: the \<open>int\<close> is converted
  to \<open>size_t\<close> and the product is taken modulo \<open>2 ^ 64\<close>.
\<close>

definition size_t_times :: "int \<Rightarrow> nat \<Rightarrow> nat" where
  "size_t_times a b = (nat (a mod 2 ^ 64) * b) mod 2 ^ 64"

text \<open>
  \<open>Job::start\<close>. The two readings of \<open>Timer::elapsedSeconds()\<close> are the arguments
  \<open>now\<close> and \<open>now'\<close>; \<open>JobDescription::deserialize\<close> and the virtual
  \<open>appl_start\<close> are arguments too. The thread count is the \<open>float\<close> quotient of the
  size limit and the number of literals, both converted to \<open>float\<close>, rounded down.
\<close>

definition start ::
  "('d \<Rightarrow> JobDescription) \<Rightarrow> real \<Rightarrow> real \<Rightarrow> ('a Job_scheme \<Rightarrow> 'a Job_scheme) \<Rightarrow>
   'a Job_scheme \<Rightarrow> 'd \<Rightarrow> fault + 'a Job_scheme" where
  "start deserialize now now' appl_start j data =
     (if \<not> assertState j INACTIVE then Inl AssertionFailed
      else
        (let j = (if time_of_activation j \<le> 0 then j\<lparr>time_of_activation := now\<rparr> else j);
             j = j\<lparr>time_of_last_limit_check := now'\<rparr>;
             j = j\<lparr>volume := 1\<rparr>;
             j = j\<lparr>description := deserialize data\<rparr>;
             j = j\<lparr>priority := getPriority (description j)\<rparr>;
             j = (if getMaxDemand (description j) > 0
                  then j\<lparr>max_demand :=
                         (if max_demand j = 0 then getMaxDemand (description j)
                          else min (max_demand j) (getMaxDemand (description j)))\<rparr>
                  else j);
             j = (if sizeLimitPerProcess j > 0 \<and>
                     size_t_times (threads_per_job j) (getNumFormulaLiterals (description j))
                       > nat (sizeLimitPerProcess j)
                  then (let optNumThreads =
                              \<lfloor>float32 (float32 (real_of_int (sizeLimitPerProcess j))
                                 / float32 (real (getNumFormulaLiterals (description j))))\<rfloor>
                        in j\<lparr>threads_per_job := max 1 optNumThreads\<rparr>)
                  else j);
             j = j\<lparr>has_description := True\<rparr>;
             j = j\<lparr>state := ACTIVE\<rparr>
         in Inr (appl_start j)))"

definition stop :: "('a Job_scheme \<Rightarrow> 'a Job_scheme) \<Rightarrow> 'a Job_scheme \<Rightarrow> fault + 'a Job_scheme" where
  "stop appl_stop j =
     (if \<not> assertState j ACTIVE then Inl AssertionFailed
      else Inr (appl_stop (j\<lparr>state := INACTIVE\<rparr>)))"

definition suspend :: "('a Job_scheme \<Rightarrow> 'a Job_scheme) \<Rightarrow> 'a Job_scheme \<Rightarrow> fault + 'a Job_scheme" where
  "suspend appl_suspend j =
     (if \<not> assertState j ACTIVE then Inl AssertionFailed
      else (let j = j\<lparr>state := SUSPENDED\<rparr>;
                j = appl_suspend j
            in Inr (j\<lparr>volume := 0\<rparr>)))"

definition resume :: "('a Job_scheme \<Rightarrow> 'a Job_scheme) \<Rightarrow> 'a Job_scheme \<Rightarrow> fault + 'a Job_scheme" where
  "resume appl_resume j =
     (if \<not> assertState j SUSPENDED then Inl AssertionFailed
      else Inr (appl_resume (j\<lparr>state := ACTIVE\<rparr>)))"

definition interrupt :: "('a Job_scheme \<Rightarrow> 'a Job_scheme) \<Rightarrow> 'a Job_scheme \<Rightarrow> fault + 'a Job_scheme" where
  "interrupt appl_interrupt j =
     (if \<not> assertState j ACTIVE then Inl AssertionFailed
      else (let j = j\<lparr>state := STANDBY\<rparr>;
                j = appl_interrupt j;
                j = j\<lparr>job_tree := unsetLeftChild (job_tree j)\<rparr>
            in Inr (j\<lparr>job_tree := unsetRightChild (job_tree j)\<rparr>)))"

text \<open>
  \<open>Job::getDemand\<close>, with its \<open>float\<close> arithmetic: the age
  \<open>elapsedTime - _time_of_activation\<close>, the quotient \<open>t / _growth_period\<close> and the sum
  \<open>numPeriods + 1\<close> are each rounded to \<open>float\<close>. \<open>std::pow(2, x)\<close> of the C library,
  on doubles, is the argument \<open>pow2\<close>.
\<close>

definition getDemand_float ::
  "(real \<Rightarrow> real) \<Rightarrow> 'a Job_scheme \<Rightarrow> int \<Rightarrow> real \<Rightarrow> fault + int" where
  "getDemand_float pow2 j prevVolume elapsedTime =
     (if state j = ACTIVE then
        (let commSize = comm_size (job_tree j) in
         case
           (if growth_period j \<le> 0 then Inr (comm_size (job_tree j))
            else if time_of_activation j \<le> 0 then Inr 1
            else
              (let t = float32 (elapsedTime - time_of_activation j);
                   numPeriods = float32 (t / growth_period j)
               in if \<not> continuous_growth j then
                    (let numPeriods = real_of_int \<lfloor>numPeriods\<rfloor> in
                     case int_of_float (float32 (numPeriods + 1)) of
                       Inl e \<Rightarrow> Inl e
                     | Inr n \<Rightarrow>
                         (case shift_left_one n of
                            Inl e \<Rightarrow> Inl e
                          | Inr p \<Rightarrow>
                              (case int_check (p - 1) of
                                 Inl e \<Rightarrow> Inl e
                               | Inr q \<Rightarrow> Inr (min commSize q))))
                  else
                    (case int_of_float (pow2 (float32 (numPeriods + 1))) of
                       Inl e \<Rightarrow> Inl e
                     | Inr p \<Rightarrow>
                         (case int_check (p - 1) of
                            Inl e \<Rightarrow> Inl e
                          | Inr q \<Rightarrow> Inr (min commSize q)))))
         of
           Inl e \<Rightarrow> Inl e
         | Inr demand \<Rightarrow>
             Inr (if max_demand j > 0 then min demand (max_demand j) else demand))
      else Inr prevVolume)"

text \<open>
  \<open>Job::getDemand\<close> over exact arithmetic: the same statements with no operation
  rounded and \<open>2 powr x\<close> for \<open>std::pow(2, x)\<close>.
\<close>

definition getDemand :: "'a Job_scheme \<Rightarrow> int \<Rightarrow> real \<Rightarrow> fault + int" where
  "getDemand j prevVolume elapsedTime =
     (if state j = ACTIVE then
        (let commSize = comm_size (job_tree j) in
         case
           (if growth_period j \<le> 0 then Inr (comm_size (job_tree j))
            else if time_of_activation j \<le> 0 then Inr 1
            else
              (let t = elapsedTime - time_of_activation j;
                   numPeriods = t / growth_period j
               in if \<not> continuous_growth j then
                    (let numPeriods = real_of_int \<lfloor>numPeriods\<rfloor> in
                     case int_of_float (numPeriods + 1) of
                       Inl e \<Rightarrow> Inl e
                     | Inr n \<Rightarrow>
                         (case shift_left_one n of
                            Inl e \<Rightarrow> Inl e
                          | Inr p \<Rightarrow>
                              (case int_check (p - 1) of
                                 Inl e \<Rightarrow> Inl e
                               | Inr q \<Rightarrow> Inr (min commSize q))))
                  else
                    (case int_of_float (2 powr (numPeriods + 1)) of
                       Inl e \<Rightarrow> Inl e
                     | Inr p \<Rightarrow>
                         (case int_check (p - 1) of
                            Inl e \<Rightarrow> Inl e
                          | Inr q \<Rightarrow> Inr (min commSize q)))))
         of
           Inl e \<Rightarrow> Inl e
         | Inr demand \<Rightarrow>
             Inr (if max_demand j > 0 then min demand (max_demand j) else demand))
      else Inr prevVolume)"

text \<open>The last step of \<open>getDemand\<close>, on its own: the cut at a positive maximal demand.\<close>

definition limit_demand :: "'a Job_scheme \<Rightarrow> int \<Rightarrow> int" where
  "limit_demand j demand = (if max_demand j > 0 then min demand (max_demand j) else demand)"

text \<open>
  The demand function as the specification words it (section 4.7), with the integer
  part taken of the continuous curve: frozen when not active, the communicator size
  when the growth period is not positive, otherwise the doubling curve of the age
  \<open>p = (t - t_activation) / growth_period\<close>, cut at the communicator size and at a
  positive maximal demand.
\<close>

definition demand_spec :: "'a Job_scheme \<Rightarrow> int \<Rightarrow> real \<Rightarrow> int" where
  "demand_spec j prev_volume t =
     (if state j \<noteq> ACTIVE then prev_volume
      else
        (let p = (t - time_of_activation j) / growth_period j;
             d = (if growth_period j \<le> 0 then comm_size (job_tree j)
                  else if continuous_growth j
                    then min (comm_size (job_tree j)) (\<lfloor>2 powr (p + 1)\<rfloor> - 1)
                    else min (comm_size (job_tree j)) (2 ^ nat (\<lfloor>p\<rfloor> + 1) - 1))
         in limit_demand j d))"

section \<open>The cube job (base_cube_sat_job.cpp)\<close>

text \<open>
  \<open>CubeLib\<close> is declared outside these sources: its constructors and the methods
  called here are the fields of \<open>CubeLib_api\<close>, over any type \<open>'l\<close> of libraries.
\<close>

record 'l CubeLib_api =
  new_root_lib :: "int list \<Rightarrow> 'l"
  new_worker_lib :: "int list \<Rightarrow> 'l"
  generateCubes :: "'l \<Rightarrow> 'l"
  startWorking :: "'l \<Rightarrow> 'l"
  lib_interrupt :: "'l \<Rightarrow> 'l"

record 'l BaseCubeSatJob = Job +
  abort_before_initialization :: bool
  isInitialized :: bool
  isDestructible :: bool
  lib :: "'l option"

text \<open>
  \<open>appl_initialize\<close> and \<open>appl_interrupt\<close> both run under \<open>_initialization_mutex\<close>,
  so each is one atomic step on the job. The result of \<open>appl_initialize\<close> is the
  returned flag and the job.
\<close>

definition appl_initialize ::
  "'l CubeLib_api \<Rightarrow> ('l, 'a) BaseCubeSatJob_scheme \<Rightarrow>
   fault + (bool \<times> ('l, 'a) BaseCubeSatJob_scheme)" where
  "appl_initialize api b =
     (if abort_before_initialization b then Inr (False, b\<lparr>isDestructible := True\<rparr>)
      else
        (case getPayloads (description b) of
           [] \<Rightarrow> Inl OutOfRange
         | formula # _ \<Rightarrow>
             (let b = (if is_root (job_tree b)
                       then b\<lparr>lib := Some (generateCubes api (new_root_lib api formula))\<rparr>
                       else b\<lparr>lib := Some (new_worker_lib api formula)\<rparr>);
                  b = b\<lparr>isInitialized := True\<rparr>;
                  b = b\<lparr>lib := map_option (startWorking api) (lib b)\<rparr>
              in Inr (True, b))))"

definition appl_interrupt ::
  "'l CubeLib_api \<Rightarrow> ('l, 'a) BaseCubeSatJob_scheme \<Rightarrow> ('l, 'a) BaseCubeSatJob_scheme" where
  "appl_interrupt api b =
     (if isInitialized b then b\<lparr>lib := map_option (lib_interrupt api) (lib b)\<rparr>
      else b\<lparr>abort_before_initialization := True\<rparr>)"

definition appl_isDestructible :: "('l, 'a) BaseCubeSatJob_scheme \<Rightarrow> bool" where
  "appl_isDestructible b = isDestructible b"

text \<open>\<open>BaseCubeSatJob::getDemand\<close>, the override of \<open>Job::getDemand\<close>.\<close>

definition cube_getDemand :: "('l, 'a) BaseCubeSatJob_scheme \<Rightarrow> int \<Rightarrow> real \<Rightarrow> fault + int" where
  "cube_getDemand b prevVolume elapsedTime =
     (if \<not> isInitialized b then Inr 1 else getDemand b prevVolume elapsedTime)"

section \<open>The cube worker (cube_worker.cpp)\<close>

datatype SatResult = SAT | UNSAT | UNKNOWN

datatype WorkerState = IDLING | WAITING | REQUESTING | WORKING | RETURNING | SOLVED | FAILED

text \<open>
  The solver behind \<open>_solver\<close> (the CaDiCaL wrapper, declared outside these sources)
  is any state type \<open>'s\<close> with the two methods \<open>solve\<close> calls: \<open>solve(path)\<close>, which
  answers and changes the solver, and \<open>getFailedAssumptions()\<close>, which reads it.
\<close>

record 's solver_api =
  solver_solve :: "'s \<Rightarrow> int list \<Rightarrow> SatResult \<times> 's"
  getFailedAssumptions :: "'s \<Rightarrow> int list"

record 's CubeWorker =
  worker_state :: WorkerState
  worker_result :: SatResult
  local_cubes :: "Cube list"
  failed_cubes :: "Cube list"
  worker_solver :: 's

definition includesFailedCube :: "('s, 'a) CubeWorker_scheme \<Rightarrow> Cube \<Rightarrow> bool" where
  "includesFailedCube w cube =
     list_ex (\<lambda>failed_cube. cube_includes cube failed_cube) (failed_cubes w)"

text \<open>
  One pass through the body of the \<open>for\<close> loop of \<open>CubeWorker::solve\<close> ends either in
  the next iteration (\<open>Continue\<close>: the \<open>continue\<close> statement or the end of the body) or
  in a \<open>return\<close> out of \<open>solve\<close> (\<open>Return\<close>).
\<close>

datatype 'a flow = Continue 'a | Return 'a

definition solve_cube ::
  "'s solver_api \<Rightarrow> ('s, 'a) CubeWorker_scheme \<Rightarrow> Cube \<Rightarrow> ('s, 'a) CubeWorker_scheme flow" where
  "solve_cube api w next_local_cube =
     (let path = getPath next_local_cube in
      if includesFailedCube w next_local_cube then Continue w
      else
        (case solver_solve api (worker_solver w) path of
           (result, s) \<Rightarrow>
             (let w = w\<lparr>worker_solver := s\<rparr> in
              case result of
                SAT \<Rightarrow> Return (w\<lparr>worker_state := SOLVED, worker_result := SAT\<rparr>)
              | UNKNOWN \<Rightarrow> Return w
              | UNSAT \<Rightarrow>
                  (let failed_assumps = getFailedAssumptions api (worker_solver w) in
                   if length failed_assumps > 0
                   then Continue (w\<lparr>failed_cubes := failed_cubes w @ [Cube failed_assumps]\<rparr>)
                   else Return (w\<lparr>worker_state := SOLVED, worker_result := UNSAT\<rparr>)))))"

fun solve_loop ::
  "'s solver_api \<Rightarrow> ('s, 'a) CubeWorker_scheme \<Rightarrow> Cube list \<Rightarrow> ('s, 'a) CubeWorker_scheme flow" where
  "solve_loop api w [] = Continue w"
| "solve_loop api w (next_local_cube # cubes) =
     (case solve_cube api w next_local_cube of
        Continue w' \<Rightarrow> solve_loop api w' cubes
      | Return w' \<Rightarrow> Return w')"

text \<open>After the loop: a \<open>return\<close> inside it has left \<open>solve\<close>; otherwise line 116 runs.\<close>

definition after_loop :: "('s, 'a) CubeWorker_scheme flow \<Rightarrow> ('s, 'a) CubeWorker_scheme" where
  "after_loop r = (case r of Return w \<Rightarrow> w | Continue w \<Rightarrow> w\<lparr>worker_state := FAILED\<rparr>)"

definition solve :: "'s solver_api \<Rightarrow> ('s, 'a) CubeWorker_scheme \<Rightarrow> ('s, 'a) CubeWorker_scheme" where
  "solve api w = after_loop (solve_loop api w (local_cubes w))"

section \<open>The cube generator thread (dynamic_cube_generator_thread.cpp)\<close>

text \<open>
  The two \<open>CaDiCaL::Solver\<close> objects \<open>_solver\<close> and \<open>_cube_checker\<close> are states of any
  type \<open>'s\<close> with the five methods \<open>generate\<close> calls. \<open>solve\<close>, \<open>lookahead\<close> and
  \<open>status\<close> answer with the integers 10 (satisfiable), 20 (unsatisfiable) and 0.
\<close>

record 's cadical_api =
  cadical_assume :: "'s \<Rightarrow> int \<Rightarrow> 's"
  cadical_solve :: "'s \<Rightarrow> int \<times> 's"
  cadical_lookahead :: "'s \<Rightarrow> int \<times> 's"
  cadical_status :: "'s \<Rightarrow> int"
  cadical_failed :: "'s \<Rightarrow> int \<Rightarrow> bool"

record 's DynamicCubeGeneratorThread =
  cube :: "Cube option"
  split_literal :: int
  failed :: "int list option"
  generator_result :: SatResult
  generator_solver :: 's
  cube_checker :: 's

text \<open>
  \<open>_isInterrupted\<close> is an atomic flag another thread sets. \<open>generate\<close> reads it twice:
  in the assertion after the cube checker answered 0, and after \<open>lookahead\<close> answered
  0. The two values read are the arguments \<open>interrupted_at_check\<close> and
  \<open>interrupted_at_lookahead\<close>.

  \<open>generate_lookahead\<close> is the part of \<open>generate\<close> from line 134 on, which the cube
  checker's branches reach by falling through.
\<close>

definition generate_lookahead ::
  "'s cadical_api \<Rightarrow> bool \<Rightarrow> ('s, 'a) DynamicCubeGeneratorThread_scheme \<Rightarrow> int list \<Rightarrow>
   fault + ('s, 'a) DynamicCubeGeneratorThread_scheme" where
  "generate_lookahead api interrupted_at_lookahead g path =
     (let g = g\<lparr>generator_solver := foldl (cadical_assume api) (generator_solver g) path\<rparr>;
          (lit, s) = cadical_lookahead api (generator_solver g);
          g = g\<lparr>generator_solver := s, split_literal := lit\<rparr>
      in if split_literal g = 0 then
           (if interrupted_at_lookahead then Inr g
            else
              (let g = (if cadical_status api (generator_solver g) = 0
                        then g\<lparr>generator_solver :=
                               snd (cadical_solve api
                                 (foldl (cadical_assume api) (generator_solver g) path))\<rparr>
                        else g)
               in if \<not> (cadical_status api (generator_solver g) = 10 \<or>
                         cadical_status api (generator_solver g) = 20)
                  then Inl AssertionFailed
                  else if cadical_status api (generator_solver g) = 10
                  then Inr (g\<lparr>generator_result := SAT\<rparr>)
                  else
                    (let failed_assumptions =
                           filter (cadical_failed api (generator_solver g)) path
                     in if length failed_assumptions > 0
                        then Inr (g\<lparr>failed := Some failed_assumptions\<rparr>)
                        else Inr (g\<lparr>generator_result := UNSAT\<rparr>))))
         else Inr g)"

definition generate ::
  "'s cadical_api \<Rightarrow> bool \<Rightarrow> bool \<Rightarrow> ('s, 'a) DynamicCubeGeneratorThread_scheme \<Rightarrow>
   fault + ('s, 'a) DynamicCubeGeneratorThread_scheme" where
  "generate api interrupted_at_check interrupted_at_lookahead g =
     (case cube g of
        None \<Rightarrow> Inr g
      | Some c \<Rightarrow>
          (let path = getPath c;
               g = g\<lparr>cube_checker := foldl (cadical_assume api) (cube_checker g) path\<rparr>;
               (result, s) = cadical_solve api (cube_checker g);
               g = g\<lparr>cube_checker := s\<rparr>
           in if result = 10 then generate_lookahead api interrupted_at_lookahead g path
              else if result = 0 then
                (if interrupted_at_check then Inr g else Inl AssertionFailed)
              else if result = 20 then
                (let failed_assumptions = filter (cadical_failed api (cube_checker g)) path
                 in if failed_assumptions = []
                    then Inr (g\<lparr>generator_result := UNSAT\<rparr>)
                    else Inr (g\<lparr>failed := Some failed_assumptions\<rparr>))
              else generate_lookahead api interrupted_at_lookahead g path))"

section \<open>The job file adapter (job_file_adapter.cpp)\<close>













section \<open>Concrete inputs\<close>

text \<open>Calls that may end in a fault, one after the other.\<close>

definition fault_bind :: "fault + 'a \<Rightarrow> ('a \<Rightarrow> fault + 'b) \<Rightarrow> fault + 'b" where
  "fault_bind r f = (case r of Inl e \<Rightarrow> Inl e | Inr x \<Rightarrow> f x)"

text \<open>Jobs: one that is active since time 10, and one that was never started.\<close>

definition example_job :: Job where
  "example_job =
     \<lparr> sizeLimitPerProcess = 0, state = ACTIVE,
       job_tree = \<lparr> comm_size = 100, is_root = True, left_child = Some 1, right_child = Some 2 \<rparr>,
       growth_period = 1, continuous_growth = True, max_demand = 0, threads_per_job = 4,
       time_of_activation = 10, time_of_last_limit_check = 10, volume = 1, priority = 1,
       description = \<lparr> getId = 1, getPriority = 1, isIncremental = False, getMaxDemand = 0, getNumFormulaLiterals = 2,
                       getPayloads = [[1, 0]], getRevision = 0 \<rparr>,
       has_description = True \<rparr>"

definition fresh_job :: Job where
  "fresh_job =
     \<lparr> sizeLimitPerProcess = 0, state = INACTIVE,
       job_tree = \<lparr> comm_size = 100, is_root = True, left_child = None, right_child = None \<rparr>,
       growth_period = 1, continuous_growth = True, max_demand = 0, threads_per_job = 4,
       time_of_activation = 0, time_of_last_limit_check = 0, volume = 0, priority = 0,
       description = \<lparr> getId = 1, getPriority = 0, isIncremental = False, getMaxDemand = 0, getNumFormulaLiterals = 0,
                       getPayloads = [], getRevision = 0 \<rparr>,
       has_description = False \<rparr>"

definition example_deserialize :: "int list \<Rightarrow> JobDescription" where
  "example_deserialize data =
     \<lparr> getId = 1, getPriority = 1 / 2, isIncremental = False, getMaxDemand = 0, getNumFormulaLiterals = length data,
       getPayloads = [data], getRevision = 0 \<rparr>"

text \<open>
  A stand-in for \<open>std::pow(2, x)\<close>: the exact power rounded to \<open>double\<close>.
\<close>

definition rounded_pow2 :: "real \<Rightarrow> real" where
  "rounded_pow2 x = float64 (2 powr x)"

text \<open>
  A job in discrete mode, active since time 1, whose growth period is the \<open>float\<close>
  next above \<open>4 / 3\<close>.
\<close>

definition slow_job :: Job where
  "slow_job = example_job\<lparr>growth_period := 11184811 / 8388608, time_of_activation := 1,
     continuous_growth := False\<rparr>"

text \<open>A cube job before its initialization, and a library that records the calls made on it.\<close>

definition example_cube_job :: "string list BaseCubeSatJob" where
  "example_cube_job =
     \<lparr> sizeLimitPerProcess = 0, state = ACTIVE,
       job_tree = \<lparr> comm_size = 100, is_root = True, left_child = None, right_child = None \<rparr>,
       growth_period = 1, continuous_growth = True, max_demand = 0, threads_per_job = 4,
       time_of_activation = 10, time_of_last_limit_check = 10, volume = 1, priority = 1,
       description = \<lparr> getId = 1, getPriority = 1, isIncremental = False, getMaxDemand = 0, getNumFormulaLiterals = 2,
                       getPayloads = [[1, 0]], getRevision = 0 \<rparr>,
       has_description = True,
       abort_before_initialization = False, isInitialized = False, isDestructible = False,
       lib = None \<rparr>"

definition logging_lib :: "string list CubeLib_api" where
  "logging_lib =
     \<lparr> new_root_lib = (\<lambda>formula. [''CubeLib(formula, comm, 5, 4)'']),
       new_worker_lib = (\<lambda>formula. [''CubeLib(formula, comm)'']),
       generateCubes = (\<lambda>l. l @ [''generateCubes'']),
       startWorking = (\<lambda>l. l @ [''startWorking'']),
       lib_interrupt = (\<lambda>l. l @ [''interrupt'']) \<rparr>"

text \<open>
  A solver for the cube worker that answers from a script (the answer and the failed
  assumptions for each path) and records the paths it was asked to solve.
\<close>

definition scripted_solver ::
  "(int list \<Rightarrow> SatResult \<times> int list) \<Rightarrow> (int list list \<times> int list) solver_api" where
  "scripted_solver script =
     \<lparr> solver_solve = (\<lambda>s path. (fst (script path), (fst s @ [path], snd (script path)))),
       getFailedAssumptions = snd \<rparr>"

definition example_script :: "int list \<Rightarrow> SatResult \<times> int list" where
  "example_script path =
     (if path = [-1, 3] then (SAT, [])
      else if path = [4, 5] then (UNSAT, [4])
      else if path = [6] then (UNKNOWN, [])
      else (UNSAT, []))"

definition example_worker :: "Cube list \<Rightarrow> (int list list \<times> int list) CubeWorker" where
  "example_worker cubes =
     \<lparr> worker_state = WORKING, worker_result = UNKNOWN, local_cubes = cubes,
       failed_cubes = [Cube [1]], worker_solver = ([], []) \<rparr>"

text \<open>
  A CaDiCaL stand-in for the generator with fixed answers: what \<open>solve\<close> answers,
  what \<open>lookahead\<close> answers and the status it leaves, and the failed literals.
\<close>

definition stub_cadical ::
  "int \<Rightarrow> int \<Rightarrow> int \<Rightarrow> int list \<Rightarrow> (int list \<times> int) cadical_api" where
  "stub_cadical solve_answer lookahead_answer lookahead_status failed_literals =
     \<lparr> cadical_assume = (\<lambda>s lit. (fst s @ [lit], snd s)),
       cadical_solve = (\<lambda>s. (solve_answer, ([], solve_answer))),
       cadical_lookahead = (\<lambda>s. (lookahead_answer, ([], lookahead_status))),
       cadical_status = snd,
       cadical_failed = (\<lambda>s lit. lit \<in> set failed_literals) \<rparr>"

definition example_generator :: "(int list \<times> int) DynamicCubeGeneratorThread" where
  "example_generator =
     \<lparr> cube = Some (Cube [1, -2]), split_literal = 0, failed = None,
       generator_result = UNKNOWN, generator_solver = ([], 0), cube_checker = ([], 0) \<rparr>"










section \<open>Serialization round trip\<close>

lemma serialize_loop_append:
  "serialize_loop acc cubes = acc @ serialize_loop [] cubes"
proof (induction cubes arbitrary: acc)
  case Nil
  show ?case by simp
next
  case (Cons c cs)
  have "serialize_loop acc (c # cs) = serialize_loop (acc @ getPath c @ [0]) cs"
    by simp
  also have "\<dots> = (acc @ getPath c @ [0]) @ serialize_loop [] cs"
    by (rule Cons.IH)
  also have "\<dots> = acc @ serialize_loop (getPath c @ [0]) cs"
    using Cons.IH [of "getPath c @ [0]"] by simp
  finally show ?case by simp
qed

lemma unserialize_loop_path:
  "list_all (\<lambda>lit. lit \<noteq> 0) path \<Longrightarrow>
   unserialize_loop cubes acc (path @ 0 # rest) =
   unserialize_loop (cubes @ [Cube (acc @ path)]) [] rest"
  by (induction path arbitrary: acc) simp_all

lemma unserialize_serialize_loop:
  "list_all nonzero_literals cs \<Longrightarrow>
   unserialize_loop cubes0 [] (serialize_loop [] cs) = cubes0 @ cs"
proof (induction cs arbitrary: cubes0)
  case Nil
  show ?case by simp
next
  case (Cons c cs)
  from Cons.prems have nz: "list_all (\<lambda>lit. lit \<noteq> 0) (getPath c)"
    by (simp add: nonzero_literals_def)
  from Cons.prems have rest: "list_all nonzero_literals cs"
    by simp
  have "serialize_loop [] (c # cs) = getPath c @ 0 # serialize_loop [] cs"
    using serialize_loop_append [of "getPath c @ [0]" cs] by simp
  then have "unserialize_loop cubes0 [] (serialize_loop [] (c # cs)) =
      unserialize_loop (cubes0 @ [Cube (getPath c)]) [] (serialize_loop [] cs)"
    using unserialize_loop_path [OF nz, of cubes0 "[]"] by simp
  also have "\<dots> = (cubes0 @ [Cube (getPath c)]) @ cs"
    by (rule Cons.IH [OF rest])
  finally show ?case by simp
qed

text \<open>
  C9. For every list of cubes whose literals are all nonzero, unserializing the
  serialization of the list gives the list back.
\<close>

theorem unserialize_serialize_roundtrip:
  "list_all nonzero_literals cubes \<Longrightarrow> unserializeCubes (serializeCubes cubes) = cubes"
  using unserialize_serialize_loop [of cubes "[]"]
  by (simp add: unserializeCubes_def serializeCubes_def)

theorem unserialize_serialize_roundtrip_witness:
  "list_all nonzero_literals [Cube [1, 2], Cube [], Cube [-1, 3]] \<and>
   serializeCubes [Cube [1, 2], Cube [], Cube [-1, 3]] = [1, 2, 0, 0, -1, 3, 0] \<and>
   unserializeCubes (serializeCubes [Cube [1, 2], Cube [], Cube [-1, 3]]) =
     [Cube [1, 2], Cube [], Cube [-1, 3]]"
proof -
  have nz: "list_all nonzero_literals [Cube [1, 2], Cube [], Cube [-1, 3]]"
    by (simp add: nonzero_literals_def)
  have ser: "serializeCubes [Cube [1, 2], Cube [], Cube [-1, 3]] = [1, 2, 0, 0, -1, 3, 0]"
    by (simp add: serializeCubes_def)
  from nz ser unserialize_serialize_roundtrip [OF nz] show ?thesis by simp
qed

section \<open>Rounding to a binary format\<close>

text \<open>
  A value in the binade of \<open>2 powi k\<close> is rounded at the last of its \<open>prec\<close> bits;
  an integer of fewer than \<open>prec\<close> bits is not changed.
\<close>

lemma round_binary_binade:
  assumes "2 powi k \<le> \<bar>x\<bar>" "\<bar>x\<bar> < 2 powi (k + 1)" "emin \<le> k - int prec + 1"
  shows "round_binary prec emin x =
     of_int (round_ties_even (x / 2 powi (k - int prec + 1))) * 2 powi (k - int prec + 1)"
proof -
  have "(0::real) < 2 powi k" by simp
  with assms(1) have pos: "0 < \<bar>x\<bar>" by linarith
  then have nz: "x \<noteq> 0" by simp
  have a: "(2::real) powr of_int k = 2 powi k" by (simp add: powr_real_of_int')
  have "(2::real) powr of_int (k + 1) = 2 powi (k + 1)" by (rule powr_real_of_int') simp_all
  then have b: "(2::real) powr (of_int k + 1) = 2 powi (k + 1)" by simp
  have "\<lfloor>log 2 \<bar>x\<bar>\<rfloor> = k"
    using assms(1,2) pos by (simp add: floor_log_eq_powr_iff a b)
  with nz assms(3) show ?thesis
    by (simp add: round_binary_def Let_def max_def)
qed

lemma round_ties_even_of_int: "round_ties_even (of_int m) = m"
  by (simp add: round_ties_even_def)

lemma round_binary_of_int:
  assumes small: "\<bar>n\<bar> < 2 ^ prec" and emin: "emin \<le> 1 - int prec"
  shows "round_binary prec emin (of_int n) = of_int n"
proof (cases "n = 0")
  case True
  then show ?thesis by (simp add: round_binary_def)
next
  case False
  then have one: "(1::real) \<le> \<bar>of_int n\<bar>" by (simp flip: of_int_abs)
  from small have "\<bar>real_of_int n\<bar> < 2 ^ prec"
    by (metis of_int_abs of_int_less_numeral_power_cancel_iff)
  define k where "k = \<lfloor>log 2 \<bar>real_of_int n\<bar>\<rfloor>"
  have k0: "0 \<le> k"
    unfolding k_def using one by simp
  have "log 2 \<bar>real_of_int n\<bar> < real prec"
    using one \<open>\<bar>real_of_int n\<bar> < 2 ^ prec\<close>
    by (simp add: log_less_iff powr_realpow)
  then have k1: "k < int prec"
    unfolding k_def by (simp add: floor_less_iff)
  define m where "m = nat (int prec - 1 - k)"
  from k0 k1 emin have e: "max emin (k - int prec + 1) = - int m"
    by (simp add: m_def max_def)
  have p: "(2::real) powi (- int m) = 1 / 2 ^ m"
    by (simp add: power_int_minus field_simps)
  have "real_of_int n / (1 / 2 ^ m) = of_int (n * 2 ^ m)" by simp
  then have r: "round_ties_even (real_of_int n / (1 / 2 ^ m)) = n * 2 ^ m"
    by (simp only: round_ties_even_of_int)
  from False show ?thesis
    unfolding round_binary_def Let_def k_def [symmetric] e p r
    by simp
qed

lemma float32_of_int: "\<bar>n\<bar> < 16777216 \<Longrightarrow> float32 (of_int n) = of_int n"
  unfolding float32_def by (rule round_binary_of_int) simp_all

lemma float64_of_int: "\<bar>n\<bar> < 9007199254740992 \<Longrightarrow> float64 (of_int n) = of_int n"
  unfolding float64_def by (rule round_binary_of_int) simp_all

text \<open>The roundings of the concrete inputs.\<close>

lemma float32_small:
  "float32 0 = 0" "float32 1 = 1" "float32 2 = 2" "float32 3 = 3" "float32 4 = 4"
  "float32 7 = 7" "float32 8 = 8"
  using float32_of_int [of 0] float32_of_int [of 1] float32_of_int [of 2] float32_of_int [of 3]
    float32_of_int [of 4] float32_of_int [of 7] float32_of_int [of 8]
  by simp_all

lemma rounded_pow2_small:
  "rounded_pow2 1 = 2" "rounded_pow2 2 = 4" "rounded_pow2 3 = 8" "rounded_pow2 4 = 16"
  "rounded_pow2 8 = 256"
  using float64_of_int [of 2] float64_of_int [of 4] float64_of_int [of 8] float64_of_int [of 16]
    float64_of_int [of 256]
  by (simp_all add: rounded_pow2_def)

lemma float32_slow_quotient:
  "float32 (4 / (11184811 / 8388608)) = 3" "float32 (33554432 / 11184811) = 3"
  unfolding float32_def
  by (subst round_binary_binade [where k = 1], simp_all add: round_ties_even_def)+

lemma float32_thread_values:
  "float32 33554431 = 33554432" "float32 16777216 = 16777216"
  unfolding float32_def
  by (subst round_binary_binade [where k = 24], simp_all add: round_ties_even_def)+







section \<open>The demand of an active job\<close>


lemma int_check_Inr: "- 2147483648 \<le> v \<Longrightarrow> v < 2147483648 \<Longrightarrow> int_check v = Inr v"
  by (simp add: int_check_def)

lemma int_check_Inl: "v < - 2147483648 \<or> 2147483648 \<le> v \<Longrightarrow> int_check v = Inl UndefinedBehaviour"
  by (auto simp add: int_check_def)

lemma continuous_value:
  "(case int_of_float (2 powr x) of
      Inl e \<Rightarrow> Inl e
    | Inr p \<Rightarrow> (case int_check (p - 1) of Inl e \<Rightarrow> Inl e | Inr q \<Rightarrow> Inr (f q))) =
   (if \<lfloor>2 powr x\<rfloor> < 2 ^ 31 then Inr (f (\<lfloor>2 powr x\<rfloor> - 1)) else Inl UndefinedBehaviour)"
proof -
  have fl: "0 \<le> \<lfloor>(2::real) powr x\<rfloor>" by simp
  have 0: "int_of_float (2 powr x) = int_check \<lfloor>2 powr x\<rfloor>"
    by (simp add: int_of_float_def)
  show ?thesis
  proof (cases "\<lfloor>2 powr x\<rfloor> < 2 ^ 31")
    case True
    then have up: "\<lfloor>(2::real) powr x\<rfloor> < 2147483648" by simp
    from fl have "- 2147483648 \<le> \<lfloor>(2::real) powr x\<rfloor>" by linarith
    then have 1: "int_check \<lfloor>2 powr x\<rfloor> = Inr \<lfloor>2 powr x\<rfloor>"
      using up by (rule int_check_Inr)
    from fl have "- 2147483648 \<le> \<lfloor>(2::real) powr x\<rfloor> - 1" by linarith
    moreover from up have "\<lfloor>(2::real) powr x\<rfloor> - 1 < 2147483648" by linarith
    ultimately have 2: "int_check (\<lfloor>2 powr x\<rfloor> - 1) = Inr (\<lfloor>2 powr x\<rfloor> - 1)"
      by (rule int_check_Inr)
    from True show ?thesis by (simp only: 0 1 2 if_True sum.case)
  next
    case False
    then have "2147483648 \<le> \<lfloor>(2::real) powr x\<rfloor>" by simp
    then have 1: "int_check \<lfloor>2 powr x\<rfloor> = Inl UndefinedBehaviour"
      by (simp add: int_check_Inl)
    from False show ?thesis by (simp only: 0 1 if_False sum.case)
  qed
qed

lemma int_of_float_of_int: "int_of_float (real_of_int n + 1) = int_check (n + 1)"
proof -
  have "real_of_int n + 1 = real_of_int (n + 1)" by simp
  then show ?thesis
    unfolding int_of_float_def by (simp only: floor_of_int ceiling_of_int if_cancel)
qed

lemma power_le_30: "k \<le> 30 \<Longrightarrow> (2::int) ^ k \<le> 2 ^ 30"
  by (rule power_increasing) simp_all

lemma discrete_value:
  "(case int_of_float (real_of_int n + 1) of
      Inl e \<Rightarrow> Inl e
    | Inr m \<Rightarrow>
        (case shift_left_one m of
           Inl e \<Rightarrow> Inl e
         | Inr p \<Rightarrow> (case int_check (p - 1) of Inl e \<Rightarrow> Inl e | Inr q \<Rightarrow> Inr (f q)))) =
   (if 0 \<le> n + 1 \<and> n + 1 \<le> 30 then Inr (f (2 ^ nat (n + 1) - 1)) else Inl UndefinedBehaviour)"
proof (cases "0 \<le> n + 1 \<and> n + 1 \<le> 30")
  case True
  then have "nat (n + 1) \<le> 30" by linarith
  then have "(2::int) ^ nat (n + 1) \<le> 2 ^ 30" by (rule power_le_30)
  then have le: "(2::int) ^ nat (n + 1) \<le> 1073741824" by simp
  have ge: "(1::int) \<le> 2 ^ nat (n + 1)" by simp
  from True have 1: "int_check (n + 1) = Inr (n + 1)" by (simp add: int_check_def)
  from ge have lo: "- 2147483648 \<le> (2::int) ^ nat (n + 1) - 1" by linarith
  from le have hi: "(2::int) ^ nat (n + 1) - 1 < 2147483648" by linarith
  from True have 2: "shift_left_one (n + 1) = Inr (2 ^ nat (n + 1))"
    by (simp add: shift_left_one_def)
  from lo hi have 3: "int_check (2 ^ nat (n + 1) - 1) = Inr (2 ^ nat (n + 1) - 1)"
    by (rule int_check_Inr)
  from True show ?thesis
    by (simp only: int_of_float_of_int 1 2 3 sum.case if_True simp_thms)
next
  case False
  show ?thesis
  proof (cases "- (2 ^ 31) \<le> n + 1 \<and> n + 1 < 2 ^ 31")
    case inr: True
    then have 1: "int_check (n + 1) = Inr (n + 1)" by (simp add: int_check_def)
    show ?thesis
    proof (cases "n + 1 = 31")
      case True
      then have 2: "shift_left_one (n + 1) = Inr (- (2 ^ 31))"
        by (simp add: shift_left_one_def)
      have 3: "int_check (- (2 ^ 31) - 1) = Inl UndefinedBehaviour"
        by (simp add: int_check_def)
      from False show ?thesis
        by (simp only: int_of_float_of_int 1 2 3 sum.case if_False simp_thms)
    next
      case ne: False
      with False have 2: "shift_left_one (n + 1) = Inl UndefinedBehaviour"
        by (auto simp add: shift_left_one_def)
      from False show ?thesis
        by (simp only: int_of_float_of_int 1 2 sum.case if_False simp_thms)
    qed
  next
    case out: False
    then have 1: "int_check (n + 1) = Inl UndefinedBehaviour" by (auto simp add: int_check_def)
    from False show ?thesis
      by (simp only: int_of_float_of_int 1 sum.case if_False simp_thms)
  qed
qed

lemma getDemand_growing:
  assumes "state j = ACTIVE" "0 < growth_period j" "0 < time_of_activation j"
  shows "getDemand j prevVolume t =
     (if continuous_growth j then
        (if \<lfloor>2 powr ((t - time_of_activation j) / growth_period j + 1)\<rfloor> < 2 ^ 31
         then Inr (limit_demand j (min (comm_size (job_tree j))
                (\<lfloor>2 powr ((t - time_of_activation j) / growth_period j + 1)\<rfloor> - 1)))
         else Inl UndefinedBehaviour)
      else
        (if 0 \<le> \<lfloor>(t - time_of_activation j) / growth_period j\<rfloor> + 1 \<and>
            \<lfloor>(t - time_of_activation j) / growth_period j\<rfloor> + 1 \<le> 30
         then Inr (limit_demand j (min (comm_size (job_tree j))
                (2 ^ nat (\<lfloor>(t - time_of_activation j) / growth_period j\<rfloor> + 1) - 1)))
         else Inl UndefinedBehaviour))"
proof (cases "continuous_growth j")
  case True
  with assms have "getDemand j prevVolume t =
      (case (case int_of_float (2 powr ((t - time_of_activation j) / growth_period j + 1)) of
               Inl e \<Rightarrow> Inl e
             | Inr p \<Rightarrow> (case int_check (p - 1) of Inl e \<Rightarrow> Inl e
                  | Inr q \<Rightarrow> Inr (min (comm_size (job_tree j)) q))) of
         Inl e \<Rightarrow> Inl e
       | Inr demand \<Rightarrow> Inr (limit_demand j demand))"
    unfolding getDemand_def limit_demand_def by (simp add: Let_def)
  with True show ?thesis
    by (simp add: continuous_value)
next
  case False
  with assms have "getDemand j prevVolume t =
      (case (case int_of_float (real_of_int \<lfloor>(t - time_of_activation j) / growth_period j\<rfloor> + 1) of
               Inl e \<Rightarrow> Inl e
             | Inr n \<Rightarrow>
                (case shift_left_one n of
                   Inl e \<Rightarrow> Inl e
                 | Inr p \<Rightarrow> (case int_check (p - 1) of Inl e \<Rightarrow> Inl e
                      | Inr q \<Rightarrow> Inr (min (comm_size (job_tree j)) q)))) of
         Inl e \<Rightarrow> Inl e
       | Inr demand \<Rightarrow> Inr (limit_demand j demand))"
    unfolding getDemand_def limit_demand_def by (simp add: Let_def)
  with False show ?thesis
    by (simp add: discrete_value)
qed



lemma nonneg_value:
  assumes "0 \<le> x" "x < 2147483648"
  shows "(case int_of_float x of
      Inl e \<Rightarrow> Inl e
    | Inr p \<Rightarrow> (case int_check (p - 1) of Inl e \<Rightarrow> Inl e | Inr q \<Rightarrow> Inr (f q))) =
   Inr (f (\<lfloor>x\<rfloor> - 1))"
proof -
  from assms(1) have fl: "0 \<le> \<lfloor>x\<rfloor>" by simp
  from assms(2) have up: "\<lfloor>x\<rfloor> < 2147483648" by (simp add: floor_less_iff)
  from assms(1) have 0: "int_of_float x = int_check \<lfloor>x\<rfloor>"
    by (simp add: int_of_float_def)
  from fl have "- 2147483648 \<le> \<lfloor>x\<rfloor>" by linarith
  then have 1: "int_check \<lfloor>x\<rfloor> = Inr \<lfloor>x\<rfloor>" using up by (rule int_check_Inr)
  from fl have "- 2147483648 \<le> \<lfloor>x\<rfloor> - 1" by linarith
  moreover from up have "\<lfloor>x\<rfloor> - 1 < 2147483648" by linarith
  ultimately have 2: "int_check (\<lfloor>x\<rfloor> - 1) = Inr (\<lfloor>x\<rfloor> - 1)" by (rule int_check_Inr)
  show ?thesis by (simp only: 0 1 2 sum.case)
qed

lemma getDemand_float_growing:
  assumes "state j = ACTIVE" "0 < growth_period j" "0 < time_of_activation j"
  shows "getDemand_float pow2 j prevVolume t =
     (case
        (if \<not> continuous_growth j then
           (case int_of_float (float32 (real_of_int
                   \<lfloor>float32 (float32 (t - time_of_activation j) / growth_period j)\<rfloor> + 1)) of
              Inl e \<Rightarrow> Inl e
            | Inr n \<Rightarrow>
                (case shift_left_one n of
                   Inl e \<Rightarrow> Inl e
                 | Inr p \<Rightarrow> (case int_check (p - 1) of Inl e \<Rightarrow> Inl e
                      | Inr q \<Rightarrow> Inr (min (comm_size (job_tree j)) q))))
         else
           (case int_of_float (pow2 (float32
                   (float32 (float32 (t - time_of_activation j) / growth_period j) + 1))) of
              Inl e \<Rightarrow> Inl e
            | Inr p \<Rightarrow> (case int_check (p - 1) of Inl e \<Rightarrow> Inl e
                 | Inr q \<Rightarrow> Inr (min (comm_size (job_tree j)) q))))
      of
        Inl e \<Rightarrow> Inl e
      | Inr demand \<Rightarrow> Inr (limit_demand j demand))"
  using assms unfolding getDemand_float_def limit_demand_def by (simp add: Let_def)

text \<open>
  C3, as the code has it. A job that is not active keeps the previous volume. An active
  job with a growth period that is not positive demands the communicator size. An
  active job with a positive growth period and no activation time (at most 0) demands
  1. Otherwise let \<open>p\<close> be the number of periods as the code computes it in \<open>float\<close>:
  the age \<open>t - t_activation\<close> rounded to \<open>float\<close>, divided by the growth period and
  rounded again. In continuous mode the demand is the minimum of the communicator size
  and the integer part of \<open>pow(2, p + 1)\<close> less 1, where the library's power is in
  the range of \<open>int\<close>; in discrete mode it is the minimum of the communicator size
  and \<open>2 ^ (\<lfloor>p\<rfloor> + 1) - 1\<close>, for \<open>0 \<le> \<lfloor>p\<rfloor> + 1 \<le> 30\<close>. Every demand of an active job
  is cut at a positive maximal demand. With growth period 1, continuous growth,
  communicator size 100, no maximal demand and a library power that is exact at 1, 2,
  3 and 8, the demand at the \<open>float\<close> ages 0, 1, 2 and 7 is 1, 3, 7 and 100.
\<close>

theorem getDemand_float_formula:
  fixes j :: "'a Job_scheme"
  shows
  "(state j \<noteq> ACTIVE \<longrightarrow> getDemand_float pow2 j prev_volume t = Inr prev_volume) \<and>
   (state j = ACTIVE \<and> growth_period j \<le> 0 \<longrightarrow>
      getDemand_float pow2 j prev_volume t = Inr (limit_demand j (comm_size (job_tree j)))) \<and>
   (state j = ACTIVE \<and> 0 < growth_period j \<and> time_of_activation j \<le> 0 \<longrightarrow>
      getDemand_float pow2 j prev_volume t = Inr (limit_demand j 1)) \<and>
   (state j = ACTIVE \<and> 0 < growth_period j \<and> 0 < time_of_activation j \<and>
    p = float32 (float32 (t - time_of_activation j) / growth_period j) \<longrightarrow>
      (continuous_growth j \<and> 0 \<le> pow2 (float32 (p + 1)) \<and>
       pow2 (float32 (p + 1)) < 2 ^ 31 \<longrightarrow>
         getDemand_float pow2 j prev_volume t =
           Inr (limit_demand j (min (comm_size (job_tree j))
                  (\<lfloor>pow2 (float32 (p + 1))\<rfloor> - 1)))) \<and>
      (\<not> continuous_growth j \<and> 0 \<le> \<lfloor>p\<rfloor> + 1 \<and> \<lfloor>p\<rfloor> + 1 \<le> 30 \<longrightarrow>
         getDemand_float pow2 j prev_volume t =
           Inr (limit_demand j (min (comm_size (job_tree j)) (2 ^ nat (\<lfloor>p\<rfloor> + 1) - 1))))) \<and>
   (state j = ACTIVE \<and> growth_period j = 1 \<and> continuous_growth j \<and>
    comm_size (job_tree j) = 100 \<and> max_demand j = 0 \<and> 0 < time_of_activation j \<and>
    pow2 1 = 2 \<and> pow2 2 = 4 \<and> pow2 3 = 8 \<and> pow2 8 = 256 \<longrightarrow>
      (float32 (t - time_of_activation j) = 0 \<longrightarrow>
         getDemand_float pow2 j prev_volume t = Inr 1) \<and>
      (float32 (t - time_of_activation j) = 1 \<longrightarrow>
         getDemand_float pow2 j prev_volume t = Inr 3) \<and>
      (float32 (t - time_of_activation j) = 2 \<longrightarrow>
         getDemand_float pow2 j prev_volume t = Inr 7) \<and>
      (float32 (t - time_of_activation j) = 7 \<longrightarrow>
         getDemand_float pow2 j prev_volume t = Inr 100))"
proof -
  have inactive: "state j \<noteq> ACTIVE \<Longrightarrow> getDemand_float pow2 j prev_volume t = Inr prev_volume"
    by (simp add: getDemand_float_def)
  have full: "state j = ACTIVE \<and> growth_period j \<le> 0 \<Longrightarrow>
      getDemand_float pow2 j prev_volume t = Inr (limit_demand j (comm_size (job_tree j)))"
    by (simp add: getDemand_float_def limit_demand_def)
  have guard: "state j = ACTIVE \<and> 0 < growth_period j \<and> time_of_activation j \<le> 0 \<Longrightarrow>
      getDemand_float pow2 j prev_volume t = Inr (limit_demand j 1)"
    by (simp add: getDemand_float_def limit_demand_def)
  have cont: "getDemand_float pow2 j prev_volume t =
           Inr (limit_demand j (min (comm_size (job_tree j))
                  (\<lfloor>pow2 (float32 (p + 1))\<rfloor> - 1)))"
    if a: "state j = ACTIVE \<and> 0 < growth_period j \<and> 0 < time_of_activation j \<and>
        p = float32 (float32 (t - time_of_activation j) / growth_period j)"
      and c: "continuous_growth j \<and> 0 \<le> pow2 (float32 (p + 1)) \<and>
        pow2 (float32 (p + 1)) < 2 ^ 31" for p
  proof -
    from c have r: "0 \<le> pow2 (float32 (p + 1))" "pow2 (float32 (p + 1)) < 2147483648"
      by simp_all
    from a c have "getDemand_float pow2 j prev_volume t =
        (case
           (case int_of_float (pow2 (float32 (p + 1))) of
              Inl e \<Rightarrow> Inl e
            | Inr p \<Rightarrow> (case int_check (p - 1) of Inl e \<Rightarrow> Inl e
                 | Inr q \<Rightarrow> Inr (min (comm_size (job_tree j)) q)))
         of Inl e \<Rightarrow> Inl e | Inr demand \<Rightarrow> Inr (limit_demand j demand))"
      by (simp add: getDemand_float_growing)
    then show ?thesis
      by (simp only: nonneg_value [OF r] sum.case)
  qed
  have disc: "getDemand_float pow2 j prev_volume t =
           Inr (limit_demand j (min (comm_size (job_tree j)) (2 ^ nat (\<lfloor>p\<rfloor> + 1) - 1)))"
    if a: "state j = ACTIVE \<and> 0 < growth_period j \<and> 0 < time_of_activation j \<and>
        p = float32 (float32 (t - time_of_activation j) / growth_period j)"
      and d: "\<not> continuous_growth j \<and> 0 \<le> \<lfloor>p\<rfloor> + 1 \<and> \<lfloor>p\<rfloor> + 1 \<le> 30" for p
  proof -
    from d have "\<bar>\<lfloor>p\<rfloor> + 1\<bar> < 16777216" by linarith
    then have "float32 (real_of_int (\<lfloor>p\<rfloor> + 1)) = real_of_int (\<lfloor>p\<rfloor> + 1)"
      by (rule float32_of_int)
    then have e: "float32 (real_of_int \<lfloor>p\<rfloor> + 1) = real_of_int \<lfloor>p\<rfloor> + 1" by simp
    from a d have "getDemand_float pow2 j prev_volume t =
        (case
           (case int_of_float (float32 (real_of_int \<lfloor>p\<rfloor> + 1)) of
              Inl e \<Rightarrow> Inl e
            | Inr n \<Rightarrow>
                (case shift_left_one n of
                   Inl e \<Rightarrow> Inl e
                 | Inr p \<Rightarrow> (case int_check (p - 1) of Inl e \<Rightarrow> Inl e
                      | Inr q \<Rightarrow> Inr (min (comm_size (job_tree j)) q))))
         of Inl e \<Rightarrow> Inl e | Inr demand \<Rightarrow> Inr (limit_demand j demand))"
      by (simp add: getDemand_float_growing)
    with d show ?thesis
      by (simp only: e discrete_value if_True simp_thms sum.case)
  qed
  have example: "getDemand_float pow2 j prev_volume t = Inr (min 100 (2 ^ (nat k + 1) - 1))"
    if a: "state j = ACTIVE \<and> growth_period j = 1 \<and> continuous_growth j \<and>
        comm_size (job_tree j) = 100 \<and> max_demand j = 0 \<and> 0 < time_of_activation j"
      and age: "float32 (t - time_of_activation j) = real_of_int k"
      and k: "0 \<le> k" "k \<le> 7"
      and pw: "pow2 (real_of_int (k + 1)) = 2 ^ (nat k + 1)" for k
  proof -
    from k have "\<bar>k\<bar> < 16777216" "\<bar>k + 1\<bar> < 16777216" by linarith+
    then have f1: "float32 (real_of_int k) = real_of_int k"
      and f2: "float32 (real_of_int (k + 1)) = real_of_int (k + 1)"
      by (simp_all only: float32_of_int)
    have p: "real_of_int k = float32 (float32 (t - time_of_activation j) / growth_period j)"
      using a age f1 by simp
    from f2 have f3: "float32 (real_of_int k + 1) = real_of_int (k + 1)" by simp
    from k have "nat k + 1 \<le> 8" by linarith
    then have "(2::real) ^ (nat k + 1) \<le> 2 ^ 8" by (rule power_increasing) simp
    then have r: "0 \<le> pow2 (float32 (real_of_int k + 1))"
      "pow2 (float32 (real_of_int k + 1)) < 2 ^ 31"
      unfolding f3 pw by simp_all
    from a p have a': "state j = ACTIVE \<and> 0 < growth_period j \<and> 0 < time_of_activation j \<and>
        real_of_int k = float32 (float32 (t - time_of_activation j) / growth_period j)"
      by simp
    have "\<lfloor>(2::real) ^ (nat k + 1)\<rfloor> = 2 ^ (nat k + 1)"
      by (metis floor_of_int of_int_numeral of_int_power)
    with cont [OF a', of ] a r show ?thesis
      unfolding f3 pw by (simp add: limit_demand_def)
  qed
  show ?thesis
  proof (intro conjI impI)
    assume h: "state j = ACTIVE \<and> growth_period j = 1 \<and> continuous_growth j \<and>
      comm_size (job_tree j) = 100 \<and> max_demand j = 0 \<and> 0 < time_of_activation j \<and>
      pow2 1 = 2 \<and> pow2 2 = 4 \<and> pow2 3 = 8 \<and> pow2 8 = 256"
    then have a: "state j = ACTIVE \<and> growth_period j = 1 \<and> continuous_growth j \<and>
        comm_size (job_tree j) = 100 \<and> max_demand j = 0 \<and> 0 < time_of_activation j"
      by simp
    {
      assume "float32 (t - time_of_activation j) = 0"
      with example [OF a, of 0] h show "getDemand_float pow2 j prev_volume t = Inr 1" by simp
    }
    {
      assume "float32 (t - time_of_activation j) = 1"
      with example [OF a, of 1] h show "getDemand_float pow2 j prev_volume t = Inr 3" by simp
    }
    {
      assume "float32 (t - time_of_activation j) = 2"
      with example [OF a, of 2] h show "getDemand_float pow2 j prev_volume t = Inr 7" by simp
    }
    {
      assume "float32 (t - time_of_activation j) = 7"
      with example [OF a, of 7] h show "getDemand_float pow2 j prev_volume t = Inr 100" by simp
    }
  qed (use inactive full guard cont disc in blast)+
qed

theorem getDemand_float_formula_witness:
  "getDemand_float rounded_pow2 (example_job\<lparr>state := SUSPENDED\<rparr>) 5 12 = Inr 5 \<and>
   getDemand_float rounded_pow2 (example_job\<lparr>growth_period := 0, max_demand := 10\<rparr>) 5 12
     = Inr 10 \<and>
   getDemand_float rounded_pow2 (example_job\<lparr>growth_period := 0\<rparr>) 5 12 = Inr 100 \<and>
   getDemand_float rounded_pow2 (example_job\<lparr>time_of_activation := 0\<rparr>) 5 12 = Inr 1 \<and>
   float32 (float32 (13 - time_of_activation example_job) / growth_period example_job) = 3 \<and>
   getDemand_float rounded_pow2 example_job 5 13 = Inr 15 \<and>
   float32 (float32 (5 - time_of_activation slow_job) / growth_period slow_job) = 3 \<and>
   getDemand_float rounded_pow2 slow_job 5 5 = Inr 15 \<and>
   getDemand_float rounded_pow2 example_job 5 10 = Inr 1 \<and>
   getDemand_float rounded_pow2 example_job 5 11 = Inr 3 \<and>
   getDemand_float rounded_pow2 example_job 5 12 = Inr 7 \<and>
   getDemand_float rounded_pow2 example_job 5 17 = Inr 100"
  using getDemand_float_formula [of "example_job\<lparr>state := SUSPENDED\<rparr>" rounded_pow2 5 12]
    getDemand_float_formula
      [of "example_job\<lparr>growth_period := 0, max_demand := 10\<rparr>" rounded_pow2 5 12]
    getDemand_float_formula [of "example_job\<lparr>growth_period := 0\<rparr>" rounded_pow2 5 12]
    getDemand_float_formula [of "example_job\<lparr>time_of_activation := 0\<rparr>" rounded_pow2 5 12]
    getDemand_float_formula [of example_job rounded_pow2 5 13 3]
    getDemand_float_formula [of slow_job rounded_pow2 5 5 3]
    getDemand_float_formula [of example_job rounded_pow2 5 10]
    getDemand_float_formula [of example_job rounded_pow2 5 11]
    getDemand_float_formula [of example_job rounded_pow2 5 12]
    getDemand_float_formula [of example_job rounded_pow2 5 17]
  by (simp add: example_job_def slow_job_def limit_demand_def float32_small rounded_pow2_small
      float32_slow_quotient)

text \<open>
  Against C3 as stated: the formula of the specification does not hold for an active
  job without activation time (at time 2 the code demands 1, the formula gives 7), and
  it does not hold with the exact quotient for \<open>p\<close> (for the growth period next above
  \<open>4 / 3\<close> and age 4 the \<open>float\<close> quotient is 3 and the code demands 15, the exact
  quotient is below 3 and the formula gives 7).
\<close>

theorem getDemand_formula_counterexample:
  "getDemand_float rounded_pow2 (example_job\<lparr>time_of_activation := 0\<rparr>) 5 2 = Inr 1 \<and>
   demand_spec (example_job\<lparr>time_of_activation := 0\<rparr>) 5 2 = 7 \<and>
   getDemand_float rounded_pow2 slow_job 5 5 = Inr 15 \<and>
   demand_spec slow_job 5 5 = 7"
  by (simp add: getDemand_float_def demand_spec_def example_job_def slow_job_def limit_demand_def
      float32_small float32_slow_quotient int_of_float_def int_check_def shift_left_one_def
      Let_def)




text \<open>
  Beyond that range the computation has no value: 40
  growth periods after the activation the discrete mode shifts by 41 and the continuous
  mode converts \<open>2 ^ 41\<close> to \<open>int\<close>.
\<close>

lemma getDemand_overflow_example:
  "getDemand (example_job\<lparr>continuous_growth := False\<rparr>) 5 50 = Inl UndefinedBehaviour \<and>
   getDemand example_job 5 50 = Inl UndefinedBehaviour"
  by (simp add: getDemand_growing example_job_def)

section \<open>The demand of a cube job\<close>

text \<open>
  C10. A cube job whose initialization has not completed demands 1, whatever the
  previous volume and the time; once initialized, its demand is the demand of
  \<open>Job::getDemand\<close>.
\<close>

theorem cube_getDemand_override:
  fixes b :: "('l, 'a) BaseCubeSatJob_scheme"
  shows "(\<not> isInitialized b \<longrightarrow> cube_getDemand b prevVolume t = Inr 1) \<and>
     (isInitialized b \<longrightarrow> cube_getDemand b prevVolume t = getDemand b prevVolume t)"
  by (simp add: cube_getDemand_def)

theorem cube_getDemand_override_witness:
  "\<not> isInitialized example_cube_job \<and>
   cube_getDemand example_cube_job 5 12 = Inr 1 \<and>
   getDemand example_cube_job 5 12 = Inr 7 \<and>
   isInitialized (example_cube_job\<lparr>isInitialized := True\<rparr>) \<and>
   cube_getDemand (example_cube_job\<lparr>isInitialized := True\<rparr>) 5 12 = Inr 7"
proof -
  have d: "getDemand example_cube_job 5 12 = Inr 7"
    by (simp add: getDemand_growing example_cube_job_def limit_demand_def)
  have e: "getDemand (example_cube_job\<lparr>isInitialized := True\<rparr>) 5 12 = Inr 7"
    by (simp add: getDemand_growing example_cube_job_def limit_demand_def)
  from d e cube_getDemand_override [of example_cube_job 5 12]
    cube_getDemand_override [of "example_cube_job\<lparr>isInitialized := True\<rparr>" 5 12]
  show ?thesis by (simp add: example_cube_job_def)
qed

section \<open>Transitions of the job life cycle\<close>

text \<open>
  C4, as the code has it. \<open>interrupt\<close> on a job in state STANDBY and \<open>suspend\<close> on
  a job in state SUSPENDED fail the state assertion \<open>assertState(ACTIVE)\<close> before
  anything is changed and before the application hook runs: a programmed assertion,
  not a no-op.
\<close>

theorem illegal_transition_asserts:
  fixes j :: "'a Job_scheme"
  shows "(state j = STANDBY \<longrightarrow> interrupt on_interrupt j = Inl AssertionFailed) \<and>
   (state j = SUSPENDED \<longrightarrow> suspend on_suspend j = Inl AssertionFailed)"
  by (simp add: interrupt_def suspend_def assertState_def)

theorem illegal_transition_asserts_witness:
  "state (example_job\<lparr>state := STANDBY\<rparr>) = STANDBY \<and>
   interrupt (\<lambda>j. j) (example_job\<lparr>state := STANDBY\<rparr>) = Inl AssertionFailed \<and>
   state (example_job\<lparr>state := SUSPENDED\<rparr>) = SUSPENDED \<and>
   suspend (\<lambda>j. j) (example_job\<lparr>state := SUSPENDED\<rparr>) = Inl AssertionFailed"
  using illegal_transition_asserts [of "example_job\<lparr>state := STANDBY\<rparr>" "\<lambda>j. j" "\<lambda>j. j"]
    illegal_transition_asserts [of "example_job\<lparr>state := SUSPENDED\<rparr>" "\<lambda>j. j" "\<lambda>j. j"]
  by simp

text \<open>
  The legal transition, for comparison: \<open>interrupt\<close> on the active example job
  gives state STANDBY and empty child slots.
\<close>

lemma interrupt_active_example:
  "interrupt (\<lambda>j. j) example_job =
     Inr (example_job\<lparr>state := STANDBY,
            job_tree := (job_tree example_job)\<lparr>left_child := None, right_child := None\<rparr>\<rparr>)"
  by (simp add: interrupt_def assertState_def example_job_def unsetLeftChild_def
      unsetRightChild_def)

text \<open>
  Against C4 as stated: \<open>interrupt\<close> on a job in state STANDBY does not return the job
  unchanged.
\<close>

theorem interrupt_standby_counterexample:
  "state (example_job\<lparr>state := STANDBY\<rparr>) = STANDBY \<and>
   interrupt (\<lambda>j. j) (example_job\<lparr>state := STANDBY\<rparr>) \<noteq> Inr (example_job\<lparr>state := STANDBY\<rparr>)"
  by (simp add: interrupt_def assertState_def)

text \<open>
  C8, as the code has it. \<open>start\<close> on an INACTIVE job deserializes the description,
  takes the priority from it, sets the volume to 1 and the state to ACTIVE, and hands
  the job to \<open>appl_start\<close>. It sets the activation time to the current time only if
  none was set before (the old value is at most 0); otherwise it keeps the old
  activation time.
\<close>

theorem start_effects:
  fixes j :: "'a Job_scheme"
  assumes "state j = INACTIVE"
  shows "\<exists>j'. start deserialize now now' on_start j data = Inr (on_start j') \<and>
     description j' = deserialize data \<and>
     priority j' = getPriority (deserialize data) \<and>
     volume j' = 1 \<and>
     state j' = ACTIVE \<and>
     time_of_activation j' = (if time_of_activation j \<le> 0 then now else time_of_activation j)"
proof -
  from assms have ok: "assertState j INACTIVE" by (simp add: assertState_def)
  show ?thesis
    unfolding start_def Let_def
    apply (simp only: ok not_True_eq_False if_False)
    apply (rule exI, rule conjI, rule refl)
    apply simp
    done
qed

theorem start_effects_witness:
  "state fresh_job = INACTIVE \<and>
   (\<exists>j'. start example_deserialize 5 6 (\<lambda>j. j) fresh_job [1, 0] = Inr j' \<and>
      description j' = example_deserialize [1, 0] \<and>
      priority j' = 1 / 2 \<and> volume j' = 1 \<and> state j' = ACTIVE \<and>
      time_of_activation j' = 5)"
  using start_effects [of fresh_job example_deserialize 5 6 "\<lambda>j. j" "[1, 0]"]
  by (simp add: fresh_job_def example_deserialize_def)

text \<open>
  Against C8 as stated: a job started at time 5, stopped, and started again at time 9
  has activation time 5. The second start does not set it.
\<close>

theorem start_after_stop_counterexample:
  "map_sum id time_of_activation
     (fault_bind
        (fault_bind (start example_deserialize 5 5 (\<lambda>j. j) fresh_job [1, 0]) (stop (\<lambda>j. j)))
        (\<lambda>j. start example_deserialize 9 9 (\<lambda>j. j) j [1, 0])) = Inr 5"
  by (simp add: start_def stop_def assertState_def fault_bind_def fresh_job_def
      example_deserialize_def size_t_times_def)

text \<open>
  The thread count of \<open>start\<close> is a \<open>float\<close> quotient: with the size limit
  \<open>2 ^ 25 - 1\<close>, which rounds to \<open>2 ^ 25\<close>, and 2 literals it is \<open>2 ^ 24\<close>.
\<close>

lemma start_thread_count_example:
  "map_sum (\<lambda>e. e) threads_per_job
     (start example_deserialize 5 5 (\<lambda>j. j)
        (fresh_job\<lparr>sizeLimitPerProcess := 33554431, threads_per_job := 16777216\<rparr>) [1, 0])
   = Inr 16777216"
  by (simp add: start_def assertState_def fresh_job_def example_deserialize_def
      size_t_times_def float32_small float32_thread_values)

section \<open>Interrupt before initialization\<close>

text \<open>
  C6. If \<open>appl_interrupt\<close> runs on a cube job that is not initialized, the
  \<open>appl_initialize\<close> that follows returns false, leaves the library as it was (it
  constructs none) and the job uninitialized, and \<open>appl_isDestructible\<close> is true
  right after it.
\<close>

theorem interrupt_before_initialize:
  fixes b :: "('l, 'a) BaseCubeSatJob_scheme"
  assumes "\<not> isInitialized b"
  shows "appl_initialize api (appl_interrupt api b) =
       Inr (False, b\<lparr>abort_before_initialization := True, isDestructible := True\<rparr>) \<and>
     lib (b\<lparr>abort_before_initialization := True, isDestructible := True\<rparr>) = lib b \<and>
     \<not> isInitialized (b\<lparr>abort_before_initialization := True, isDestructible := True\<rparr>) \<and>
     appl_isDestructible (b\<lparr>abort_before_initialization := True, isDestructible := True\<rparr>)"
  using assms
  by (simp add: appl_initialize_def appl_interrupt_def appl_isDestructible_def)

theorem interrupt_before_initialize_witness:
  "\<not> isInitialized example_cube_job \<and> lib example_cube_job = None \<and>
   appl_initialize logging_lib (appl_interrupt logging_lib example_cube_job) =
     Inr (False, example_cube_job\<lparr>abort_before_initialization := True, isDestructible := True\<rparr>) \<and>
   lib (example_cube_job\<lparr>abort_before_initialization := True, isDestructible := True\<rparr>) = None \<and>
   appl_isDestructible
     (example_cube_job\<lparr>abort_before_initialization := True, isDestructible := True\<rparr>) \<and>
   appl_initialize logging_lib example_cube_job =
     Inr (True, example_cube_job
        \<lparr>isInitialized := True,
         lib := Some [''CubeLib(formula, comm, 5, 4)'', ''generateCubes'', ''startWorking'']\<rparr>)"
proof -
  have a: "\<not> isInitialized example_cube_job" by (simp add: example_cube_job_def)
  have b: "lib example_cube_job = None" by (simp add: example_cube_job_def)
  have c: "appl_initialize logging_lib example_cube_job =
     Inr (True, example_cube_job
        \<lparr>isInitialized := True,
         lib := Some [''CubeLib(formula, comm, 5, 4)'', ''generateCubes'', ''startWorking'']\<rparr>)"
    by (simp add: appl_initialize_def example_cube_job_def logging_lib_def)
  from a b c interrupt_before_initialize [OF a, of logging_lib] show ?thesis by simp
qed

section \<open>The solve loop of the cube worker\<close>

lemma solve_loop_append:
  "solve_loop api w (pre @ cs) =
     (case solve_loop api w pre of
        Continue w' \<Rightarrow> solve_loop api w' cs
      | Return w' \<Rightarrow> Return w')"
  by (induction pre arbitrary: w) (simp_all split: flow.splits)

lemma solve_cube_Continue:
  "solve_cube api w c = Continue w' \<Longrightarrow>
   worker_state w' = worker_state w \<and> worker_result w' = worker_result w \<and>
   local_cubes w' = local_cubes w"
  by (auto simp add: solve_cube_def Let_def split: if_splits prod.splits SatResult.splits)

lemma solve_loop_Continue:
  "solve_loop api w cs = Continue w' \<Longrightarrow>
   worker_state w' = worker_state w \<and> worker_result w' = worker_result w \<and>
   local_cubes w' = local_cubes w"
proof (induction cs arbitrary: w)
  case Nil
  then show ?case by simp
next
  case (Cons c cs)
  from Cons.prems obtain w1 where 1: "solve_cube api w c = Continue w1"
    and 2: "solve_loop api w1 cs = Continue w'"
    by (auto split: flow.splits)
  from solve_cube_Continue [OF 1] Cons.IH [OF 2] show ?case by simp
qed

text \<open>
  C1. Let the loop of \<open>solve\<close> reach the local cube \<open>C\<close> with the worker \<open>wp\<close>
  (the cubes before \<open>C\<close> were all skipped or failed). If \<open>C\<close> includes a failed cube
  known to \<open>wp\<close>, the loop goes on with the unchanged worker: the solver is not
  called. If the solver answers SAT, \<open>solve\<close> ends with result SAT in state SOLVED.
  If it answers UNSAT with failed assumptions, they are appended to the failed cubes
  and the loop goes on. If it answers UNSAT without failed assumptions, \<open>solve\<close>
  ends with result UNSAT in state SOLVED. If it answers UNKNOWN, \<open>solve\<close> returns
  with the state and the result the worker had. If the loop runs through all local
  cubes, \<open>solve\<close> ends in state FAILED.
\<close>

theorem solve_handles_each_cube:
  fixes w :: "('s, 'a) CubeWorker_scheme"
  shows
  "(local_cubes w = pre @ C # post \<and> solve_loop api w pre = Continue wp \<longrightarrow>
      (includesFailedCube wp C \<longrightarrow>
         solve_cube api wp C = Continue wp \<and>
         solve api w = after_loop (solve_loop api wp post)) \<and>
      (\<not> includesFailedCube wp C \<and>
       solver_solve api (worker_solver wp) (getPath C) = (SAT, s) \<longrightarrow>
         solve api w = wp\<lparr>worker_solver := s, worker_state := SOLVED, worker_result := SAT\<rparr>) \<and>
      (\<not> includesFailedCube wp C \<and>
       solver_solve api (worker_solver wp) (getPath C) = (UNSAT, s) \<and>
       getFailedAssumptions api s \<noteq> [] \<longrightarrow>
         solve api w = after_loop (solve_loop api
           (wp\<lparr>worker_solver := s,
               failed_cubes := failed_cubes wp @ [Cube (getFailedAssumptions api s)]\<rparr>) post)) \<and>
      (\<not> includesFailedCube wp C \<and>
       solver_solve api (worker_solver wp) (getPath C) = (UNSAT, s) \<and>
       getFailedAssumptions api s = [] \<longrightarrow>
         solve api w = wp\<lparr>worker_solver := s, worker_state := SOLVED, worker_result := UNSAT\<rparr>) \<and>
      (\<not> includesFailedCube wp C \<and>
       solver_solve api (worker_solver wp) (getPath C) = (UNKNOWN, s) \<longrightarrow>
         solve api w = wp\<lparr>worker_solver := s\<rparr> \<and>
         worker_state (solve api w) = worker_state w \<and>
         worker_result (solve api w) = worker_result w \<and>
         failed_cubes (solve api w) = failed_cubes wp)) \<and>
   (solve_loop api w (local_cubes w) = Continue w' \<longrightarrow>
      solve api w = w'\<lparr>worker_state := FAILED\<rparr>)"
proof (intro conjI impI)
  assume "solve_loop api w (local_cubes w) = Continue w'"
  then show "solve api w = w'\<lparr>worker_state := FAILED\<rparr>"
    by (simp add: solve_def after_loop_def)
next
  assume a: "local_cubes w = pre @ C # post \<and> solve_loop api w pre = Continue wp"
  then have step: "solve api w =
      after_loop (case solve_cube api wp C of
                    Continue w' \<Rightarrow> solve_loop api w' post
                  | Return w' \<Rightarrow> Return w')"
    by (simp add: solve_def solve_loop_append)
  from a have same: "worker_state wp = worker_state w \<and> worker_result wp = worker_result w"
    using solve_loop_Continue [of api w pre wp] by simp
  {
    assume i: "includesFailedCube wp C"
    then show c: "solve_cube api wp C = Continue wp"
      by (simp add: solve_cube_def)
    from step c show "solve api w = after_loop (solve_loop api wp post)" by simp
  }
  {
    assume "\<not> includesFailedCube wp C \<and>
       solver_solve api (worker_solver wp) (getPath C) = (SAT, s)"
    then have "solve_cube api wp C =
        Return (wp\<lparr>worker_solver := s, worker_state := SOLVED, worker_result := SAT\<rparr>)"
      by (simp add: solve_cube_def)
    with step show "solve api w =
        wp\<lparr>worker_solver := s, worker_state := SOLVED, worker_result := SAT\<rparr>"
      by (simp add: after_loop_def)
  }
  {
    assume "\<not> includesFailedCube wp C \<and>
       solver_solve api (worker_solver wp) (getPath C) = (UNSAT, s) \<and>
       getFailedAssumptions api s \<noteq> []"
    then have "solve_cube api wp C =
        Continue (wp\<lparr>worker_solver := s,
               failed_cubes := failed_cubes wp @ [Cube (getFailedAssumptions api s)]\<rparr>)"
      by (simp add: solve_cube_def)
    with step show "solve api w = after_loop (solve_loop api
           (wp\<lparr>worker_solver := s,
               failed_cubes := failed_cubes wp @ [Cube (getFailedAssumptions api s)]\<rparr>) post)"
      by simp
  }
  {
    assume "\<not> includesFailedCube wp C \<and>
       solver_solve api (worker_solver wp) (getPath C) = (UNSAT, s) \<and>
       getFailedAssumptions api s = []"
    then have "solve_cube api wp C =
        Return (wp\<lparr>worker_solver := s, worker_state := SOLVED, worker_result := UNSAT\<rparr>)"
      by (simp add: solve_cube_def)
    with step show "solve api w =
        wp\<lparr>worker_solver := s, worker_state := SOLVED, worker_result := UNSAT\<rparr>"
      by (simp add: after_loop_def)
  }
  {
    assume "\<not> includesFailedCube wp C \<and>
       solver_solve api (worker_solver wp) (getPath C) = (UNKNOWN, s)"
    then have "solve_cube api wp C = Return (wp\<lparr>worker_solver := s\<rparr>)"
      by (simp add: solve_cube_def)
    with step show r: "solve api w = wp\<lparr>worker_solver := s\<rparr>"
      by (simp add: after_loop_def)
    from r same show "worker_state (solve api w) = worker_state w" by simp
    from r same show "worker_result (solve api w) = worker_result w" by simp
    from r show "failed_cubes (solve api w) = failed_cubes wp" by simp
  }
qed

theorem solve_handles_each_cube_witness:
  "solve (scripted_solver example_script)
     (example_worker [Cube [1, 2], Cube [4, 5], Cube [-1, 3]]) =
   \<lparr> worker_state = SOLVED, worker_result = SAT,
     local_cubes = [Cube [1, 2], Cube [4, 5], Cube [-1, 3]],
     failed_cubes = [Cube [1], Cube [4]],
     worker_solver = ([[4, 5], [-1, 3]], []) \<rparr> \<and>
   solve (scripted_solver example_script) (example_worker [Cube [1, 2], Cube [4, 5]]) =
   \<lparr> worker_state = FAILED, worker_result = UNKNOWN,
     local_cubes = [Cube [1, 2], Cube [4, 5]],
     failed_cubes = [Cube [1], Cube [4]],
     worker_solver = ([[4, 5]], [4]) \<rparr> \<and>
   solve (scripted_solver example_script) (example_worker [Cube [7], Cube [-1, 3]]) =
   \<lparr> worker_state = SOLVED, worker_result = UNSAT,
     local_cubes = [Cube [7], Cube [-1, 3]],
     failed_cubes = [Cube [1]],
     worker_solver = ([[7]], []) \<rparr> \<and>
   solve (scripted_solver example_script) (example_worker [Cube [6], Cube [-1, 3]]) =
   \<lparr> worker_state = WORKING, worker_result = UNKNOWN,
     local_cubes = [Cube [6], Cube [-1, 3]],
     failed_cubes = [Cube [1]],
     worker_solver = ([[6]], []) \<rparr>"
proof -
  let ?api = "scripted_solver example_script"
  let ?w = "example_worker [Cube [1, 2], Cube [4, 5], Cube [-1, 3]]"
  let ?w1 = "?w\<lparr>worker_solver := ([[4, 5]], [4]), failed_cubes := [Cube [1], Cube [4]]\<rparr>"
  have skip: "includesFailedCube ?w (Cube [1, 2])"
    by (simp add: includesFailedCube_def example_worker_def cube_includes_def)
  have fresh: "\<not> includesFailedCube ?w (Cube [4, 5])"
    by (simp add: includesFailedCube_def example_worker_def cube_includes_def)
  have unsat: "solver_solve ?api (worker_solver ?w) (getPath (Cube [4, 5])) = (UNSAT, ([[4, 5]], [4]))"
    by (simp add: scripted_solver_def example_script_def example_worker_def)
  have core: "getFailedAssumptions ?api ([[4, 5]], [4]) \<noteq> []"
    by (simp add: scripted_solver_def)
  have pre1: "solve_loop ?api ?w [Cube [1, 2]] = Continue ?w"
    using skip by (simp add: solve_cube_def)
  have pre2: "solve_loop ?api ?w [Cube [1, 2], Cube [4, 5]] = Continue ?w1"
    using skip fresh unsat core
    by (simp add: solve_cube_def scripted_solver_def example_worker_def Let_def)
  have fresh3: "\<not> includesFailedCube ?w1 (Cube [-1, 3])"
    by (simp add: includesFailedCube_def example_worker_def cube_includes_def)
  have sat: "solver_solve ?api (worker_solver ?w1) (getPath (Cube [-1, 3])) =
      (SAT, ([[4, 5], [-1, 3]], []))"
    by (simp add: scripted_solver_def example_script_def example_worker_def)
  have cubes: "local_cubes ?w = [Cube [1, 2], Cube [4, 5]] @ Cube [-1, 3] # []"
    by (simp add: example_worker_def)
  have A: "solve ?api ?w =
      ?w1\<lparr>worker_solver := ([[4, 5], [-1, 3]], []), worker_state := SOLVED, worker_result := SAT\<rparr>"
    using solve_handles_each_cube [where w = ?w and pre = "[Cube [1, 2], Cube [4, 5]]"
        and C = "Cube [-1, 3]" and post = "[]" and api = ?api and wp = ?w1
        and s = "([[4, 5], [-1, 3]], [])"] cubes pre2 fresh3 sat
    by blast
  let ?v = "example_worker [Cube [1, 2], Cube [4, 5]]"
  let ?v1 = "?v\<lparr>worker_solver := ([[4, 5]], [4]), failed_cubes := [Cube [1], Cube [4]]\<rparr>"
  have vloop: "solve_loop ?api ?v (local_cubes ?v) = Continue ?v1"
    by (simp add: solve_cube_def scripted_solver_def example_worker_def example_script_def
        includesFailedCube_def cube_includes_def Let_def)
  have B: "solve ?api ?v = ?v1\<lparr>worker_state := FAILED\<rparr>"
    using solve_handles_each_cube [where w = ?v and api = ?api and w' = ?v1] vloop
    by blast
  let ?u = "example_worker [Cube [7], Cube [-1, 3]]"
  have u0: "local_cubes ?u = [] @ Cube [7] # [Cube [-1, 3]]" by (simp add: example_worker_def)
  have u1: "solve_loop ?api ?u [] = Continue ?u" by simp
  have u2: "\<not> includesFailedCube ?u (Cube [7])"
    by (simp add: includesFailedCube_def example_worker_def cube_includes_def)
  have u3: "solver_solve ?api (worker_solver ?u) (getPath (Cube [7])) = (UNSAT, ([[7]], []))"
    by (simp add: scripted_solver_def example_script_def example_worker_def)
  have u4: "getFailedAssumptions ?api ([[7]], []) = []" by (simp add: scripted_solver_def)
  have C: "solve ?api ?u =
      ?u\<lparr>worker_solver := ([[7]], []), worker_state := SOLVED, worker_result := UNSAT\<rparr>"
    using solve_handles_each_cube [where w = ?u and pre = "[]" and C = "Cube [7]"
        and post = "[Cube [-1, 3]]" and api = ?api and wp = ?u and s = "([[7]], [])"]
      u0 u1 u2 u3 u4
    by blast
  let ?t = "example_worker [Cube [6], Cube [-1, 3]]"
  have t0: "local_cubes ?t = [] @ Cube [6] # [Cube [-1, 3]]" by (simp add: example_worker_def)
  have t1: "solve_loop ?api ?t [] = Continue ?t" by simp
  have t2: "\<not> includesFailedCube ?t (Cube [6])"
    by (simp add: includesFailedCube_def example_worker_def cube_includes_def)
  have t3: "solver_solve ?api (worker_solver ?t) (getPath (Cube [6])) = (UNKNOWN, ([[6]], []))"
    by (simp add: scripted_solver_def example_script_def example_worker_def)
  have D: "solve ?api ?t = ?t\<lparr>worker_solver := ([[6]], [])\<rparr>"
    using solve_handles_each_cube [where w = ?t and pre = "[]" and C = "Cube [6]"
        and post = "[Cube [-1, 3]]" and api = ?api and wp = ?t and s = "([[6]], [])"]
      t0 t1 t2 t3
    by blast
  show ?thesis
    unfolding A B C D by (simp add: example_worker_def)
qed

section \<open>One iteration of the cube generator\<close>

text \<open>
  C2, as the code has it. Let the generator hold the cube \<open>C\<close> and the cube checker
  answer \<open>r\<close> on its path. If \<open>r\<close> is 20 and no literal of the path is failed, the
  result becomes UNSAT; if some are, they are reported as the failed assumptions; in
  both cases the main solver is not touched (no lookahead). If \<open>r\<close> is 10, lookahead
  answers 0 and the thread is not interrupted when that is read, then status 10 gives
  the result SAT, status 20 with failed literals on the path reports them, and status
  20 without gives the result UNSAT. If the thread is interrupted when lookahead has
  answered 0, the iteration ends with no verdict and no report.
\<close>

theorem generate_verdicts:
  fixes g :: "('s, 'a) DynamicCubeGeneratorThread_scheme"
  shows
  "cube g = Some C \<and>
   cadical_solve api (foldl (cadical_assume api) (cube_checker g) (getPath C)) = (r, ck) \<longrightarrow>
     (r = 20 \<and> filter (cadical_failed api ck) (getPath C) = [] \<longrightarrow>
        generate api ic il g = Inr (g\<lparr>cube_checker := ck, generator_result := UNSAT\<rparr>)) \<and>
     (r = 20 \<and> filter (cadical_failed api ck) (getPath C) \<noteq> [] \<longrightarrow>
        generate api ic il g =
          Inr (g\<lparr>cube_checker := ck,
                 failed := Some (filter (cadical_failed api ck) (getPath C))\<rparr>)) \<and>
     (r = 10 \<and> \<not> il \<and>
      cadical_lookahead api (foldl (cadical_assume api) (generator_solver g) (getPath C)) = (0, s) \<longrightarrow>
        (cadical_status api s = 10 \<longrightarrow>
           generate api ic il g =
             Inr (g\<lparr>cube_checker := ck, generator_solver := s, split_literal := 0,
                    generator_result := SAT\<rparr>)) \<and>
        (cadical_status api s = 20 \<and> filter (cadical_failed api s) (getPath C) \<noteq> [] \<longrightarrow>
           generate api ic il g =
             Inr (g\<lparr>cube_checker := ck, generator_solver := s, split_literal := 0,
                    failed := Some (filter (cadical_failed api s) (getPath C))\<rparr>)) \<and>
        (cadical_status api s = 20 \<and> filter (cadical_failed api s) (getPath C) = [] \<longrightarrow>
           generate api ic il g =
             Inr (g\<lparr>cube_checker := ck, generator_solver := s, split_literal := 0,
                    generator_result := UNSAT\<rparr>))) \<and>
     (r = 10 \<and> il \<and>
      cadical_lookahead api (foldl (cadical_assume api) (generator_solver g) (getPath C)) = (0, s) \<longrightarrow>
        generate api ic il g =
          Inr (g\<lparr>cube_checker := ck, generator_solver := s, split_literal := 0\<rparr>))"
  by (simp add: generate_def generate_lookahead_def Let_def)

theorem generate_verdicts_witness:
  "generate (stub_cadical 20 0 0 []) False False example_generator =
     Inr (example_generator\<lparr>cube_checker := ([], 20), generator_result := UNSAT\<rparr>) \<and>
   generate (stub_cadical 20 0 0 [1]) False False example_generator =
     Inr (example_generator\<lparr>cube_checker := ([], 20), failed := Some [1]\<rparr>) \<and>
   generate (stub_cadical 10 0 10 []) False False example_generator =
     Inr (example_generator\<lparr>cube_checker := ([], 10), generator_solver := ([], 10),
            generator_result := SAT\<rparr>) \<and>
   generate (stub_cadical 10 0 20 [-2]) False False example_generator =
     Inr (example_generator\<lparr>cube_checker := ([], 10), generator_solver := ([], 20),
            failed := Some [-2]\<rparr>) \<and>
   generate (stub_cadical 10 0 20 []) False False example_generator =
     Inr (example_generator\<lparr>cube_checker := ([], 10), generator_solver := ([], 20),
            generator_result := UNSAT\<rparr>) \<and>
   generate (stub_cadical 10 0 0 []) False True example_generator =
     Inr (example_generator\<lparr>cube_checker := ([], 10), generator_solver := ([], 0)\<rparr>)"
  using
    generate_verdicts [where g = example_generator and C = "Cube [1, -2]"
      and api = "stub_cadical 20 0 0 []" and r = 20 and ck = "([], 20)"
      and ic = False and il = False]
    generate_verdicts [where g = example_generator and C = "Cube [1, -2]"
      and api = "stub_cadical 20 0 0 [1]" and r = 20 and ck = "([], 20)"
      and ic = False and il = False]
    generate_verdicts [where g = example_generator and C = "Cube [1, -2]"
      and api = "stub_cadical 10 0 10 []" and r = 10 and ck = "([], 10)" and s = "([], 10)"
      and ic = False and il = False]
    generate_verdicts [where g = example_generator and C = "Cube [1, -2]"
      and api = "stub_cadical 10 0 20 [-2]" and r = 10 and ck = "([], 10)" and s = "([], 20)"
      and ic = False and il = False]
    generate_verdicts [where g = example_generator and C = "Cube [1, -2]"
      and api = "stub_cadical 10 0 20 []" and r = 10 and ck = "([], 10)" and s = "([], 20)"
      and ic = False and il = False]
    generate_verdicts [where g = example_generator and C = "Cube [1, -2]"
      and api = "stub_cadical 10 0 0 []" and r = 10 and ck = "([], 10)" and s = "([], 0)"
      and ic = False and il = True]
  by (simp add: stub_cadical_def example_generator_def)

text \<open>
  Against C2 as stated: the cube checker admits the cube, lookahead answers 0 and leaves
  status 10, and the thread is interrupted. The result stays UNKNOWN.
\<close>

theorem generate_interrupted_counterexample:
  "cube example_generator = Some (Cube [1, -2]) \<and>
   cadical_solve (stub_cadical 10 0 10 [])
     (foldl (cadical_assume (stub_cadical 10 0 10 [])) (cube_checker example_generator) [1, -2])
     = (10, ([], 10)) \<and>
   cadical_lookahead (stub_cadical 10 0 10 [])
     (foldl (cadical_assume (stub_cadical 10 0 10 [])) (generator_solver example_generator) [1, -2])
     = (0, ([], 10)) \<and>
   cadical_status (stub_cadical 10 0 10 []) ([], 10) = 10 \<and>
   generate (stub_cadical 10 0 10 []) False True example_generator =
     Inr (example_generator\<lparr>cube_checker := ([], 10), generator_solver := ([], 10)\<rparr>) \<and>
   generator_result
     (example_generator\<lparr>cube_checker := ([], 10), generator_solver := ([], 10)\<rparr>) = UNKNOWN"
  by (simp add: generate_def generate_lookahead_def stub_cadical_def example_generator_def)

section \<open>The priority of a submitted job\<close>





end
